theory Spec2Isabelle
  imports Complex_Main
begin

section \<open>Data model of the sprite map material\<close>

text \<open>
  JavaScript numbers and GLSL floats are modelled as real numbers.  A \<^verbatim>\<open>Float32Array\<close>
  holds float32 values: a number stored into one is rounded to the nearest float32, ties
  to the even significand.  Exceptions of the source are values of \<open>js_error\<close>.
\<close>

datatype js_error = TypeError

subsection \<open>Rounding to float32\<close>

text \<open>The binary exponent of a positive number, kept within the range \<open>-126 \<dots> 127\<close> of
  float32 (below \<open>2 powi (-126)\<close> the numbers are subnormal and share the exponent -126):
  the search goes up from 0 for a number from 1 on and down from 0 below 1.\<close>

function expUp :: "real \<Rightarrow> int \<Rightarrow> int" where
  "expUp a e = (if e < 127 \<and> 2 powi (e + 1) \<le> a then expUp a (e + 1) else e)"
  by pat_completeness auto
termination
  by (relation "measure (\<lambda>(a, e). nat (127 - e))") auto

function expDown :: "real \<Rightarrow> int \<Rightarrow> int" where
  "expDown a e = (if - 126 < e \<and> a < 2 powi e then expDown a (e - 1) else e)"
  by pat_completeness auto
termination
  by (relation "measure (\<lambda>(a, e). nat (e + 126))") auto

definition float32_exponent :: "real \<Rightarrow> int" where
  "float32_exponent a = (if 1 \<le> a then expUp a 0 else expDown a 0)"

text \<open>The nearest integer, a tie going to the even one.\<close>

definition roundEven :: "real \<Rightarrow> int" where
  "roundEven r =
     (let f = \<lfloor>r\<rfloor>; d = r - of_int f
      in if d < 1 / 2 then f else if 1 / 2 < d then f + 1 else if even f then f else f + 1)"

text \<open>The float32 nearest to \<open>v\<close>: a multiple of the spacing \<open>2 powi (e - 23)\<close> of the
  float32 values with the exponent \<open>e\<close> of \<open>v\<close>.  A magnitude from
  \<open>2 ^ 128 - 2 ^ 103\<close> on, which float32 turns into Infinity, has no counterpart in the
  reals; the definition rounds it with the spacing of the exponent 127.\<close>

definition fround :: "real \<Rightarrow> real" where
  "fround v =
     (if v = 0 then 0
      else (let q = 2 powi (float32_exponent \<bar>v\<bar> - 23) in q * of_int (roundEven (v / q))))"

text \<open>The atlas description: \<^verbatim>\<open>ISpriteJSONSpriteFrameData\<close> (x, y, w, h),
  \<^verbatim>\<open>ISpriteJSONSpriteSourceSize\<close> (w, h) and \<^verbatim>\<open>ISpriteJSONSprite\<close>.  An object-valued
  field that the atlas leaves out reads \<^verbatim>\<open>undefined\<close> (\<open>None\<close>); a missing boolean
  reads falsy (\<open>False\<close>).\<close>

datatype FrameData = FrameData (fd_x: real) (fd_y: real) (fd_w: real) (fd_h: real)

datatype SourceSize = SourceSize (ss_w: real) (ss_h: real)

record ISpriteJSONSprite =
  frame :: "FrameData option"
  rotated :: bool
  trimmed :: bool
  spriteSourceSize :: "FrameData option"
  sourceSize :: "SourceSize option"

text \<open>A raw RGBA float texture: the texels the sampler reads (\<open>pixels\<close>, four channels per
  texel, row after row), the array the engine keeps on the CPU side (\<^verbatim>\<open>_texture._bufferView\<close>,
  nullable) and the dimensions in texels.\<close>

record RawTexture =
  pixels :: "real list"
  bufferView :: "real list option"
  width :: nat
  height :: nat

text \<open>\<^verbatim>\<open>new Float32Array(data)\<close> for an array of numbers rounds every element; for a
  \<^verbatim>\<open>Float32Array\<close>, whose elements are float32 values already, it is a copy element by
  element.\<close>

definition Float32Array :: "real list \<Rightarrow> real list" where
  "Float32Array data = map fround data"

definition Float32Array_copy :: "real list \<Rightarrow> real list" where
  "Float32Array_copy buffer = buffer"

text \<open>Modelled from the spec: \<^verbatim>\<open>RawTexture.CreateRGBATexture\<close> is not among the sources.
  Following sections 3 and 9 of the specification it yields a flat contiguous buffer of the
  given width and height that holds the supplied data; the engine keeps the array as the
  texture's buffer view.\<close>

definition CreateRGBATexture :: "real list \<Rightarrow> nat \<Rightarrow> nat \<Rightarrow> RawTexture" where
  "CreateRGBATexture data w h =
     \<lparr>pixels = data, bufferView = Some data, width = w, height = h\<rparr>"

datatype vec4 = Vec4 (vx: real) (vy: real) (vz: real) (vw: real)

text \<open>Channel \<open>k\<close> of a flat buffer; a read past the end yields 0.\<close>

definition chan :: "real list \<Rightarrow> nat \<Rightarrow> real" where
  "chan data k = (if k < length data then data ! k else 0)"

text \<open>The texel in column \<open>col\<close> of row \<open>row\<close>.\<close>

definition texel :: "RawTexture \<Rightarrow> nat \<Rightarrow> nat \<Rightarrow> vec4" where
  "texel t col row =
     (let k = 4 * (row * width t + col)
      in Vec4 (chan (pixels t) k) (chan (pixels t) (k + 1))
              (chan (pixels t) (k + 2)) (chan (pixels t) (k + 3)))"

section \<open>The frame table builder\<close>

text \<open>\<^verbatim>\<open>_buildFrameBuffer\<close>, first pass: sixteen zeros are pushed for every sprite.\<close>

function firstPass :: "nat \<Rightarrow> nat \<Rightarrow> real list \<Rightarrow> real list" where
  "firstPass spriteCount i data =
     (if i < spriteCount
      then firstPass spriteCount (Suc i)
             (data @ [0, 0, 0, 0] @ [0, 0, 0, 0] @ [0, 0, 0, 0] @ [0, 0, 0, 0])
      else data)"
  by pat_completeness auto
termination
  by (relation "measure (\<lambda>(n, i, data). n - i)") auto

text \<open>The assignments of one iteration of the second pass.  Reading \<^verbatim>\<open>f.x\<close> of a missing
  \<^verbatim>\<open>frame\<close>, \<^verbatim>\<open>sss.x\<close> of a missing \<^verbatim>\<open>spriteSourceSize\<close> or \<^verbatim>\<open>ss.w\<close> of a missing
  \<^verbatim>\<open>sourceSize\<close> throws a TypeError, in this order.  Every index written lies inside the array
  the first pass has built (lemma \<open>written_bound\<close> below), so an assignment never
  extends the array.\<close>

definition writeSprite :: "nat \<Rightarrow> nat \<Rightarrow> ISpriteJSONSprite \<Rightarrow> real list \<Rightarrow> js_error + real list" where
  "writeSprite spriteCount i s data =
     (case frame s of None \<Rightarrow> Inl TypeError | Some f \<Rightarrow>
      let r = (if rotated s then 1 else 0);
          t = (if trimmed s then 1 else 0);
          data = data[i * 4 := fd_x f];
          data = data[i * 4 + 1 := fd_y f];
          data = data[i * 4 + 2 := fd_w f];
          data = data[i * 4 + 3 := fd_h f]
      in (case spriteSourceSize s of None \<Rightarrow> Inl TypeError | Some sss \<Rightarrow>
      let data = data[i * 4 + (spriteCount * 4) := fd_x sss];
          data = data[i * 4 + 1 + (spriteCount * 4) := fd_y sss];
          data = data[i * 4 + 3 + (spriteCount * 4) := fd_h sss]
      in (case sourceSize s of None \<Rightarrow> Inl TypeError | Some ss \<Rightarrow>
      let data = data[i * 4 + (spriteCount * 8) := ss_w ss];
          data = data[i * 4 + 1 + (spriteCount * 8) := ss_h ss];
          data = data[i * 4 + 2 + (spriteCount * 8) := r];
          data = data[i * 4 + 3 + (spriteCount * 8) := t]
      in Inr data)))"

function secondPass :: "ISpriteJSONSprite list \<Rightarrow> nat \<Rightarrow> real list \<Rightarrow> js_error + real list" where
  "secondPass sprites i data =
     (if i < length sprites
      then (case writeSprite (length sprites) i (sprites ! i) data of
              Inl e \<Rightarrow> Inl e
            | Inr data' \<Rightarrow> secondPass sprites (Suc i) data')
      else Inr data)"
  by pat_completeness auto
termination
  by (relation "measure (\<lambda>(sprites, i, data). length sprites - i)") auto

definition buildFrameBuffer :: "ISpriteJSONSprite list \<Rightarrow> js_error + RawTexture" where
  "buildFrameBuffer sprites =
     (case secondPass sprites 0 (firstPass (length sprites) 0 []) of
        Inl e \<Rightarrow> Inl e
      | Inr data \<Rightarrow> Inr (CreateRGBATexture (Float32Array data) (length sprites) 4))"

text \<open>Sprites with every object-valued field present: the well-formed atlas entries.\<close>

definition completeSprite :: "ISpriteJSONSprite \<Rightarrow> bool" where
  "completeSprite s = (frame s \<noteq> None \<and> spriteSourceSize s \<noteq> None \<and> sourceSize s \<noteq> None)"

text \<open>The indices that the second pass assigns for sprite \<open>i\<close>.\<close>

definition written :: "nat \<Rightarrow> nat \<Rightarrow> nat set" where
  "written n i = {i * 4, i * 4 + 1, i * 4 + 2, i * 4 + 3,
     i * 4 + n * 4, i * 4 + 1 + n * 4, i * 4 + 3 + n * 4,
     i * 4 + n * 8, i * 4 + 1 + n * 8, i * 4 + 2 + n * 8, i * 4 + 3 + n * 8}"

section \<open>Tile grids\<close>

text \<open>\<^verbatim>\<open>_createTileBuffer\<close>.  The stage size is a pair of cell counts (the dimensions of a
  texture are whole numbers), so \<^verbatim>\<open>stageSize.x || 0\<close> is the count itself.  The inner loop
  pushes one cell for every step of four channels, the outer loop one row after the other.
  A buffer that is handed in is the buffer view of a texture, a \<^verbatim>\<open>Float32Array\<close>.\<close>

function tileRow :: "nat \<Rightarrow> nat \<Rightarrow> real \<Rightarrow> real list \<Rightarrow> real list" where
  "tileRow tx x bt data =
     (if x < tx * 4 then tileRow tx (x + 4) bt (data @ [bt, 0, 0, 0]) else data)"
  by pat_completeness auto
termination
  by (relation "measure (\<lambda>(tx, x, bt, data). tx * 4 - x)") auto

function tileRows :: "nat \<Rightarrow> nat \<Rightarrow> nat \<Rightarrow> real \<Rightarrow> real list \<Rightarrow> real list" where
  "tileRows tx ty y bt data =
     (if y < ty then tileRows tx ty (Suc y) bt (tileRow tx 0 bt data) else data)"
  by pat_completeness auto
termination
  by (relation "measure (\<lambda>(tx, ty, y, bt, data). ty - y)") auto

definition createTileBuffer :: "nat \<times> nat \<Rightarrow> real \<Rightarrow> real list option \<Rightarrow> nat \<Rightarrow> RawTexture" where
  "createTileBuffer stageSize baseTile buffer layer =
     (let ty = snd stageSize;
          tx = fst stageSize;
          floatArray = (case buffer of
                          None \<Rightarrow> (let bt = (if layer \<noteq> 0 then 0 else baseTile)
                                   in Float32Array (tileRows tx ty 0 bt []))
                        | Some b \<Rightarrow> Float32Array_copy b)
      in CreateRGBATexture floatArray tx ty)"

section \<open>The animation table\<close>

text \<open>\<^verbatim>\<open>_createTileAnimationBuffer\<close>: without a buffer, one zero cell per sprite for slot 0 and
  one more for every further slot \<open>j = 1, \<dots>, maxAnimationFrames - 1\<close>; a supplied buffer
  is used as it is.\<close>

function animSlots :: "nat \<Rightarrow> nat \<Rightarrow> real list \<Rightarrow> real list" where
  "animSlots maxAnimationFrames j data =
     (if j < maxAnimationFrames
      then animSlots maxAnimationFrames (Suc j) (data @ [0, 0, 0, 0])
      else data)"
  by pat_completeness auto
termination
  by (relation "measure (\<lambda>(m, j, data). m - j)") auto

function animSprites :: "nat \<Rightarrow> nat \<Rightarrow> nat \<Rightarrow> real list \<Rightarrow> real list" where
  "animSprites spriteCount maxAnimationFrames i data =
     (if i < spriteCount
      then animSprites spriteCount maxAnimationFrames (Suc i)
             (animSlots maxAnimationFrames 1 (data @ [0, 0, 0, 0]))
      else data)"
  by pat_completeness auto
termination
  by (relation "measure (\<lambda>(n, m, i, data). n - i)") auto

definition createTileAnimationBuffer :: "nat \<Rightarrow> nat \<Rightarrow> real list option \<Rightarrow> RawTexture" where
  "createTileAnimationBuffer spriteCount maxAnimationFrames buffer =
     (let floatArray = (case buffer of
                          None \<Rightarrow> Float32Array (animSprites spriteCount maxAnimationFrames 0 [])
                        | Some b \<Rightarrow> b)
      in CreateRGBATexture floatArray spriteCount maxAnimationFrames)"

section \<open>The material and its construction\<close>

text \<open>The caller's \<^verbatim>\<open>ISpriteMapMaterial\<close>: optional fields are \<open>None\<close> when left out.  The
  scene, the source images, \<^verbatim>\<open>outputSize\<close> and \<^verbatim>\<open>colorMultiply\<close> belong to the host engine
  and do not enter the buffers.\<close>

record ISpriteMapMaterial =
  p_stageSize :: "nat \<times> nat"
  p_atlas :: "ISpriteJSONSprite list"
  p_layerCount :: "int option"
  p_maxAnimationFrames :: "nat option"
  p_baseTile :: "real option"
  p_flipU :: "bool option"

record SpriteMapMaterial =
  m_stageSize :: "nat \<times> nat"
  m_sprites :: "ISpriteJSONSprite list"
  m_layerCount :: int
  m_maxAnimationFrames :: nat
  m_baseTile :: real
  m_flipU :: bool
  m_frameBuffer :: RawTexture
  m_tileBuffers :: "RawTexture list"
  m_animationBuffer :: RawTexture

definition spriteCount :: "SpriteMapMaterial \<Rightarrow> nat" where
  "spriteCount m = length (m_sprites m)"

text \<open>The loop of the constructor that pushes one tile buffer per layer.\<close>

function pushTileBuffers :: "nat \<times> nat \<Rightarrow> real \<Rightarrow> int \<Rightarrow> nat \<Rightarrow> RawTexture list \<Rightarrow> RawTexture list" where
  "pushTileBuffers stage bt layers i bufs =
     (if int i < layers
      then pushTileBuffers stage bt layers (Suc i) (bufs @ [createTileBuffer stage bt None i])
      else bufs)"
  by pat_completeness auto
termination
  by (relation "measure (\<lambda>(stage, bt, layers, i, bufs). nat (layers - int i))") auto

text \<open>The fields of the instance carry the prefix \<open>m_\<close>: the resolved parameters
  (\<^verbatim>\<open>this.params\<close>) and the three kinds of buffers.\<close>

text \<open>The constructor, as far as it builds the buffers: defaults for the optional parameters
  (\<^verbatim>\<open>??\<close>), the frame table, the empty animation table, the tile grid of every layer.  An
  exception of \<^verbatim>\<open>_buildFrameBuffer\<close> leaves the constructor, and no instance is returned.\<close>

definition SpriteMapMaterial_new :: "ISpriteMapMaterial \<Rightarrow> js_error + SpriteMapMaterial" where
  "SpriteMapMaterial_new params =
     (let lc = (case p_layerCount params of None \<Rightarrow> 1 | Some n \<Rightarrow> n);
          maf = (case p_maxAnimationFrames params of None \<Rightarrow> 1 | Some n \<Rightarrow> n);
          bt = (case p_baseTile params of None \<Rightarrow> 0 | Some b \<Rightarrow> b);
          fu = (case p_flipU params of None \<Rightarrow> False | Some b \<Rightarrow> b)
      in case buildFrameBuffer (p_atlas params) of
           Inl e \<Rightarrow> Inl e
         | Inr fb \<Rightarrow>
             Inr \<lparr>m_stageSize = p_stageSize params, m_sprites = p_atlas params,
                  m_layerCount = lc, m_maxAnimationFrames = maf, m_baseTile = bt, m_flipU = fu,
                  m_frameBuffer = fb,
                  m_tileBuffers = pushTileBuffers (p_stageSize params) bt lc 0 [],
                  m_animationBuffer = createTileAnimationBuffer (length (p_atlas params)) maf None\<rparr>)"

section \<open>Mutation of the live buffers\<close>

text \<open>An assignment \<^verbatim>\<open>buffer[id] = v\<close> to a \<^verbatim>\<open>Float32Array\<close>: the element receives the
  float32 rounding of \<open>v\<close>; an index outside the array is ignored, the array never grows.\<close>

definition typedSet :: "real list \<Rightarrow> int \<Rightarrow> real \<Rightarrow> real list" where
  "typedSet buffer k v =
     (if 0 \<le> k \<and> k < int (length buffer) then buffer[nat k := fround v] else buffer)"

text \<open>\<^verbatim>\<open>addAnimationToTile\<close>.  The method returns nothing and has no statement that throws;
  without a buffer view it returns at once.\<close>

definition addAnimationToTile ::
    "int \<Rightarrow> int \<Rightarrow> real \<Rightarrow> real \<Rightarrow> real \<Rightarrow> SpriteMapMaterial \<Rightarrow> SpriteMapMaterial" where
  "addAnimationToTile cellID frm toCell tm speed m =
     (let k = (cellID * 4) + (int (spriteCount m) * 4 * frm)
      in case bufferView (m_animationBuffer m) of
           None \<Rightarrow> m
         | Some buffer \<Rightarrow>
             let buffer = typedSet buffer k toCell;
                 buffer = typedSet buffer (k + 1) tm;
                 buffer = typedSet buffer (k + 2) speed;
                 t = createTileAnimationBuffer (spriteCount m) (m_maxAnimationFrames m) (Some buffer)
             in m\<lparr>m_animationBuffer := t\<rparr>)"

text \<open>The caller's \<^verbatim>\<open>Vector2\<close> objects live in a store, addressed by reference; \<^verbatim>\<open>changeTiles\<close>
  receives one reference or an array of references.\<close>

datatype Vector2 = Vector2 (v2_x: real) (v2_y: real)

type_synonym ref = nat

type_synonym store = "ref \<Rightarrow> Vector2"

datatype positions = One ref | Many "ref list"

text \<open>\<^verbatim>\<open>pos instanceof Vector2\<close>: a single position becomes an array of one element.\<close>

definition positionList :: "positions \<Rightarrow> ref list" where
  "positionList pos = (case pos of One r \<Rightarrow> [r] | Many rs \<Rightarrow> rs)"

definition floorVec :: "Vector2 \<Rightarrow> Vector2" where
  "floorVec v = Vector2 (of_int \<lfloor>v2_x v\<rfloor>) (of_int \<lfloor>v2_y v\<rfloor>)"

text \<open>The flat index \<^verbatim>\<open>(_p.x * 4) + (_p.y * (_tx * 4))\<close> of a floored position.\<close>

definition tileIndex :: "nat \<Rightarrow> Vector2 \<Rightarrow> int" where
  "tileIndex tx v = (\<lfloor>v2_x v\<rfloor> * 4) + (\<lfloor>v2_y v\<rfloor> * (int tx * 4))"

function changeLoop :: "nat \<Rightarrow> real \<Rightarrow> ref list \<Rightarrow> nat \<Rightarrow> store \<times> real list \<Rightarrow> store \<times> real list" where
  "changeLoop tx tile p i (h, buffer) =
     (if i < length p
      then (let r = p ! i;
                v = floorVec (h r);
                h = h(r := v);
                k = tileIndex tx v
            in changeLoop tx tile p (Suc i) (h, typedSet buffer k tile))
      else (h, buffer))"
  by pat_completeness auto
termination
  by (relation "measure (\<lambda>(tx, tile, p, i, hb). length p - i)") auto

text \<open>\<^verbatim>\<open>changeTiles\<close>: reading \<^verbatim>\<open>_texture\<close> of a layer that does not exist throws a TypeError;
  without a buffer view the method returns before it looks at the positions.\<close>

definition changeTiles ::
    "nat \<Rightarrow> positions \<Rightarrow> real \<Rightarrow> SpriteMapMaterial \<times> store \<Rightarrow> js_error + SpriteMapMaterial \<times> store" where
  "changeTiles layer pos tile ms =
     (let m = fst ms; h = snd ms
      in if \<not> layer < length (m_tileBuffers m) then Inl TypeError
         else case bufferView (m_tileBuffers m ! layer) of
                None \<Rightarrow> Inr (m, h)
              | Some buffer \<Rightarrow>
                  let p = positionList pos;
                      tx = fst (m_stageSize m);
                      (h, buffer) = changeLoop tx tile p 0 (h, buffer);
                      t = createTileBuffer (m_stageSize m) (m_baseTile m) (Some buffer) 0
                  in Inr (m\<lparr>m_tileBuffers := (m_tileBuffers m)[layer := t]\<rparr>, h))"


section \<open>The compositing sampler\<close>

text \<open>The fragment program, over the reals.  A raw texture is sampled with nearest filtering:
  a coordinate selects the texel whose cell contains it, clamped to the edge.  The diffuse
  source image is a function from coordinates to colours.  \<open>u_uninit\<close> stands for the
  value of the local \<^verbatim>\<open>float frameID\<close> in an iteration where no case of the layer switch
  assigns it.  The branches under \<^verbatim>\<open>SPRITEBUMP\<close> and \<^verbatim>\<open>SPRITESPECULAR\<close> write only
  \<^verbatim>\<open>sNorm\<close> and \<^verbatim>\<open>sSpec\<close> and are left out.\<close>

type_synonym vec2 = "real \<times> real"

definition texIndex :: "nat \<Rightarrow> real \<Rightarrow> nat" where
  "texIndex n u = nat (max 0 (min (int n - 1) \<lfloor>u * real n\<rfloor>))"

definition texture2D :: "RawTexture \<Rightarrow> vec2 \<Rightarrow> vec4" where
  "texture2D t uv = texel t (texIndex (width t) (fst uv)) (texIndex (height t) (snd uv))"

definition glsl_mod :: "real \<Rightarrow> real \<Rightarrow> real" where
  "glsl_mod a b = a - b * of_int \<lfloor>a / b\<rfloor>"

definition mix :: "real \<Rightarrow> real \<Rightarrow> real \<Rightarrow> real" where
  "mix a b t = a * (1 - t) + b * t"

record Uniforms =
  u_time :: real
  u_spriteCount :: real
  u_spriteMapSize :: vec2
  u_stageSize :: vec2
  u_frameBuffer :: RawTexture
  u_animationBuffer :: RawTexture
  u_tileBuffers :: "RawTexture list"
  u_spriteDiffuse :: "vec2 \<Rightarrow> vec4"
  u_MAX_ANIMATION_FRAMES :: nat
  u_FLIPU :: bool
  u_uninit :: real

text \<open>\<^verbatim>\<open>LAYERS\<close> is the layer count, the size of the \<^verbatim>\<open>tileBuffers\<close> array.\<close>

definition LAYERS :: "Uniforms \<Rightarrow> nat" where
  "LAYERS u = length (u_tileBuffers u)"

definition fdStep :: real where
  "fdStep = 1 / 4"

definition aFrameSteps :: "Uniforms \<Rightarrow> real" where
  "aFrameSteps u = 1 / real (u_MAX_ANIMATION_FRAMES u)"

text \<open>\<^verbatim>\<open>getFrameData\<close>: the first three columns of the matrix (the fourth is zero).\<close>

definition getFrameData :: "Uniforms \<Rightarrow> real \<Rightarrow> vec4 \<times> vec4 \<times> vec4 \<times> vec4" where
  "getFrameData u frameID =
     (let fX = frameID / u_spriteCount u
      in (texture2D (u_frameBuffer u) (fX, 0),
          texture2D (u_frameBuffer u) (fX, fdStep * 1),
          texture2D (u_frameBuffer u) (fX, fdStep * 2),
          Vec4 0 0 0 0))"

text \<open>The layer switch: case \<open>i\<close> exists for \<open>i < LAYERS\<close> only.\<close>

definition layerSample :: "Uniforms \<Rightarrow> vec2 \<Rightarrow> nat \<Rightarrow> real" where
  "layerSample u tileID i =
     (if i < LAYERS u
      then vx (texture2D (u_tileBuffers u ! i)
                 ((fst tileID + 0.5) / fst (u_stageSize u), (snd tileID + 0.5) / snd (u_stageSize u)))
      else u_uninit u)"

text \<open>The scan over the animation slots: it stops with the slot's target as soon as the
  hold fraction at hand is greater than \<open>mt\<close>, and reads slot \<open>f\<close> otherwise.\<close>

function animScan :: "Uniforms \<Rightarrow> real \<Rightarrow> real \<Rightarrow> nat \<Rightarrow> vec4 \<Rightarrow> real" where
  "animScan u mt frameID f animationData =
     (if f < u_MAX_ANIMATION_FRAMES u
      then (if vy animationData > mt then vx animationData
            else animScan u mt frameID (Suc f)
                   (texture2D (u_animationBuffer u)
                      ((frameID + 0.5) / u_spriteCount u, aFrameSteps u * real f)))
      else frameID)"
  by pat_completeness auto
termination
  by (relation "measure (\<lambda>(u, mt, frameID, f, a). u_MAX_ANIMATION_FRAMES u - f)") auto

definition resolveFrame :: "Uniforms \<Rightarrow> real \<Rightarrow> real" where
  "resolveFrame u frameID =
     (let animationData = texture2D (u_animationBuffer u) ((frameID + 0.5) / u_spriteCount u, 0)
      in if vy animationData > 0
         then animScan u (glsl_mod (u_time u * vz animationData) 1.0) frameID 0 animationData
         else frameID)"

record loopState =
  sColor :: vec4
  tileUV :: vec2

text \<open>The loop body up to the sample: the frame of layer \<open>i\<close> at the tile, after
  animation, its frame data, and the rotation test, whose \<^verbatim>\<open>tileUV.xy = tileUV.yx\<close> assigns to
  the variable declared before the loop.  The result is the new value of \<^verbatim>\<open>tileUV\<close> and the
  coordinate \<^verbatim>\<open>(tileUV * frameSize) + offset\<close> at which the source image is sampled.\<close>

definition layerSetup :: "Uniforms \<Rightarrow> vec2 \<Rightarrow> nat \<Rightarrow> vec2 \<Rightarrow> vec2 \<times> vec2" where
  "layerSetup u tileID i uv =
     (let sheetUnits = (1 / fst (u_spriteMapSize u), 1 / snd (u_spriteMapSize u));
          frameID = layerSample u tileID i;
          frameID = resolveFrame u frameID;
          frameData = getFrameData u (frameID + 0.5);
          c0 = fst frameData;
          c2 = fst (snd (snd frameData));
          frameSize = (vw c0 / fst (u_spriteMapSize u), vz c0 / snd (u_spriteMapSize u));
          offset = (vx c0 * fst sheetUnits, vy c0 * snd sheetUnits);
          uv = (if vz c2 = 1 then (snd uv, fst uv) else uv)
      in (uv, (fst uv * fst frameSize + fst offset, snd uv * snd frameSize + snd offset)))"


text \<open>One iteration of the layer loop.\<close>

definition layerBody :: "Uniforms \<Rightarrow> vec2 \<Rightarrow> nat \<Rightarrow> loopState \<Rightarrow> loopState" where
  "layerBody u tileID i st =
     (case layerSetup u tileID i (tileUV st) of (uv, coord) \<Rightarrow>
        if i = 0
        then \<lparr>sColor = u_spriteDiffuse u coord, tileUV = uv\<rparr>
        else (let nc = u_spriteDiffuse u coord;
                  alpha = min (vw (sColor st) + vw nc) 1.0;
                  mixed = (mix (vx (sColor st)) (vx nc) (vw nc),
                           mix (vy (sColor st)) (vy nc) (vw nc),
                           mix (vz (sColor st)) (vz nc) (vw nc))
              in \<lparr>sColor = Vec4 (fst mixed) (fst (snd mixed)) (snd (snd mixed)) alpha,
                  tileUV = uv\<rparr>))"

function layersLoop :: "Uniforms \<Rightarrow> vec2 \<Rightarrow> nat \<Rightarrow> loopState \<Rightarrow> loopState" where
  "layersLoop u tileID i st =
     (if i < LAYERS u + 1 then layersLoop u tileID (Suc i) (layerBody u tileID i st) else st)"
  by pat_completeness auto
termination
  by (relation "measure (\<lambda>(u, tileID, i, st). LAYERS u + 1 - i)") auto

text \<open>The start of the fragment program and its result \<^verbatim>\<open>sColor\<close>, which gives
  \<^verbatim>\<open>diffuseColor\<close> and \<^verbatim>\<open>alphaFinal\<close>.\<close>

definition fragmentInit :: "Uniforms \<Rightarrow> vec2 \<Rightarrow> loopState" where
  "fragmentInit u tUV =
     (let uv = (frac (fst tUV), frac (snd tUV));
          uv = (if u_FLIPU u then (fst uv, 1.0 - snd uv) else uv)
      in \<lparr>sColor = Vec4 0 0 0 0, tileUV = uv\<rparr>)"




text \<open>The uniforms that the constructor declares and binds for a material: the time, the
  sprite count as a float, the size of the source image, the stage size and the three
  kinds of buffers.\<close>

definition uniformsOf ::
    "SpriteMapMaterial \<Rightarrow> real \<Rightarrow> vec2 \<Rightarrow> (vec2 \<Rightarrow> vec4) \<Rightarrow> real \<Rightarrow> Uniforms" where
  "uniformsOf m tm mapSize diffuse uninit =
     \<lparr>u_time = tm, u_spriteCount = real (spriteCount m), u_spriteMapSize = mapSize,
      u_stageSize = (real (fst (m_stageSize m)), real (snd (m_stageSize m))),
      u_frameBuffer = m_frameBuffer m, u_animationBuffer = m_animationBuffer m,
      u_tileBuffers = m_tileBuffers m, u_spriteDiffuse = diffuse,
      u_MAX_ANIMATION_FRAMES = m_maxAnimationFrames m, u_FLIPU = m_flipU m,
      u_uninit = uninit\<rparr>"

section \<open>Example inputs\<close>

definition sprA :: ISpriteJSONSprite where
  "sprA = \<lparr>frame = Some (FrameData 0 0 16 16), rotated = False, trimmed = False,
     spriteSourceSize = Some (FrameData 0 0 16 16), sourceSize = Some (SourceSize 16 16)\<rparr>"

definition sprB :: ISpriteJSONSprite where
  "sprB = \<lparr>frame = Some (FrameData 16 0 10 5), rotated = True, trimmed = True,
     spriteSourceSize = Some (FrameData 1 2 10 5), sourceSize = Some (SourceSize 12 7)\<rparr>"

definition sprBad :: ISpriteJSONSprite where
  "sprBad = \<lparr>frame = None, rotated = False, trimmed = False,
     spriteSourceSize = Some (FrameData 0 0 16 16), sourceSize = Some (SourceSize 16 16)\<rparr>"

text \<open>A stage of two by two cells, one layer, two sprites and two animation slots.\<close>

definition paramsA :: ISpriteMapMaterial where
  "paramsA = \<lparr>p_stageSize = (2, 2), p_atlas = [sprA, sprB], p_layerCount = Some 1,
     p_maxAnimationFrames = Some 2, p_baseTile = Some 0, p_flipU = None\<rparr>"

definition matA :: SpriteMapMaterial where
  "matA = projr (SpriteMapMaterial_new paramsA)"

text \<open>A stage without cells and a layer count of zero.\<close>

definition paramsZero :: ISpriteMapMaterial where
  "paramsZero = \<lparr>p_stageSize = (0, 0), p_atlas = [sprA], p_layerCount = Some 0,
     p_maxAnimationFrames = None, p_baseTile = None, p_flipU = None\<rparr>"

text \<open>An atlas with an entry that lacks its \<^verbatim>\<open>frame\<close>.\<close>

definition paramsBad :: ISpriteMapMaterial where
  "paramsBad = \<lparr>p_stageSize = (2, 2), p_atlas = [sprA, sprBad], p_layerCount = Some 1,
     p_maxAnimationFrames = None, p_baseTile = None, p_flipU = None\<rparr>"

text \<open>The material \<open>matA\<close> on an engine that keeps no buffer view of the tile grid.\<close>

definition matNull :: SpriteMapMaterial where
  "matNull = matA\<lparr>m_tileBuffers := [(m_tileBuffers matA ! 0)\<lparr>bufferView := None\<rparr>]\<rparr>"


definition storeFrac :: store where
  "storeFrac = (\<lambda>r. Vector2 2.5 1.5)"


text \<open>A source image of 32 by 16 pixels whose colour records the coordinate; it is opaque
  in its left half and half transparent in its right half.\<close>

definition diffuseA :: "vec2 \<Rightarrow> vec4" where
  "diffuseA uv = Vec4 (fst uv) (snd uv) 0 (if fst uv < 0.5 then 1 else 0.5)"





text \<open>\<open>matA\<close> after sprite 0 has received the single transition (1, 0.5, 1.0) in slot 0.\<close>

definition matAnim :: SpriteMapMaterial where
  "matAnim = addAnimationToTile 0 0 1 0.5 1 matA"

definition uniformsAnim :: "real \<Rightarrow> Uniforms" where
  "uniformsAnim tm = uniformsOf matAnim tm (32, 16) diffuseA 1"

text \<open>A stage of one cell with two layers: layer 0 shows sprite 1 (rotated), layer 1 shows
  sprite 0 (not rotated).\<close>

definition paramsR :: ISpriteMapMaterial where
  "paramsR = \<lparr>p_stageSize = (1, 1), p_atlas = [sprA, sprB], p_layerCount = Some 2,
     p_maxAnimationFrames = Some 1, p_baseTile = Some 1, p_flipU = None\<rparr>"

definition uniformsR :: Uniforms where
  "uniformsR = uniformsOf (projr (SpriteMapMaterial_new paramsR)) 0 (32, 16) diffuseA 0"

section \<open>Properties of the frame table builder\<close>

declare expUp.simps [simp del] expDown.simps [simp del]







declare firstPass.simps [simp del] secondPass.simps [simp del] tileRow.simps [simp del]
  tileRows.simps [simp del] animSlots.simps [simp del] animSprites.simps [simp del]
  pushTileBuffers.simps [simp del] changeLoop.simps [simp del] animScan.simps [simp del]
  layersLoop.simps [simp del]


lemma writeSprite_Some:
  "frame s = Some f \<Longrightarrow> spriteSourceSize s = Some sss \<Longrightarrow> sourceSize s = Some ss \<Longrightarrow>
   writeSprite n i s data = Inr (data[i * 4 := fd_x f, i * 4 + 1 := fd_y f, i * 4 + 2 := fd_w f,
     i * 4 + 3 := fd_h f, i * 4 + (n * 4) := fd_x sss, i * 4 + 1 + (n * 4) := fd_y sss,
     i * 4 + 3 + (n * 4) := fd_h sss, i * 4 + (n * 8) := ss_w ss, i * 4 + 1 + (n * 8) := ss_h ss,
     i * 4 + 2 + (n * 8) := (if rotated s then 1 else 0),
     i * 4 + 3 + (n * 8) := (if trimmed s then 1 else 0)])"
  by (simp add: writeSprite_def Let_def)

lemma writeSprite_Inr:
  "writeSprite n i s data = Inr data' \<Longrightarrow>
   \<exists>f sss ss. frame s = Some f \<and> spriteSourceSize s = Some sss \<and> sourceSize s = Some ss"
  by (cases "frame s"; cases "spriteSourceSize s"; cases "sourceSize s")
     (simp_all add: writeSprite_def Let_def)




text \<open>Every index that the second pass assigns lies inside the array of the first pass.\<close>

lemma written_bound: "i < n \<Longrightarrow> k \<in> written n i \<Longrightarrow> k < 16 * n"
  unfolding written_def by (elim insertE emptyE; simp)


lemma secondPass_step:
  assumes "secondPass sprites i data = Inr data'" "i < length sprites"
  obtains d where "writeSprite (length sprites) i (sprites ! i) data = Inr d"
    and "secondPass sprites (Suc i) d = Inr data'"
proof -
  from assms have "(case writeSprite (length sprites) i (sprites ! i) data of
              Inl e \<Rightarrow> Inl e
            | Inr data' \<Rightarrow> secondPass sprites (Suc i) data') = Inr data'"
    by (subst (asm) secondPass.simps) (simp only: if_True)
  then show ?thesis
    by (cases "writeSprite (length sprites) i (sprites ! i) data") (simp_all add: that)
qed

lemma secondPass_done: "\<not> i < length sprites \<Longrightarrow> secondPass sprites i data = Inr data"
  by (subst secondPass.simps) (simp only: if_False)





lemma secondPass_total:
  "(\<And>j. i \<le> j \<Longrightarrow> j < length sprites \<Longrightarrow> completeSprite (sprites ! j)) \<Longrightarrow>
   \<exists>data'. secondPass sprites i data = Inr data'"
proof (induction sprites i data rule: secondPass.induct)
  case (1 sprites i data)
  show ?case
  proof (cases "i < length sprites")
    case True
    from "1.prems" [of i] True have "completeSprite (sprites ! i)" by simp
    then obtain d where d: "writeSprite (length sprites) i (sprites ! i) data = Inr d"
      by (auto simp: completeSprite_def writeSprite_Some)
    from "1.IH" [OF True d] "1.prems" obtain data' where "secondPass sprites (Suc i) d = Inr data'"
      by auto
    with d True show ?thesis by (subst secondPass.simps) simp
  next
    case False
    then show ?thesis by (simp add: secondPass_done)
  qed
qed












text \<open>C8, as the code has it: with no sprite the builder does not fault and yields a table
  of width 0 and height 4 over an empty array.\<close>

theorem buildFrameBuffer_empty:
  "buildFrameBuffer [] = Inr \<lparr>pixels = [], bufferView = Some [], width = 0, height = 4\<rparr>"
  by (simp add: buildFrameBuffer_def CreateRGBATexture_def Float32Array_def
      firstPass.simps secondPass.simps)

text \<open>C8 as stated fails: the table for an empty atlas is not one texel wide.\<close>

theorem buildFrameBuffer_empty_counterexample:
  "\<not> width (projr (buildFrameBuffer [])) = 1"
  by code_simp

section \<open>Properties of the tile grids\<close>








section \<open>Properties of the constructor\<close>

lemma pushTileBuffers_length:
  "length (pushTileBuffers stage bt layers i bufs) = length bufs + nat (layers - int i)"
proof (induction stage bt layers i bufs rule: pushTileBuffers.induct)
  case (1 stage bt layers i bufs)
  show ?case
  proof (cases "int i < layers")
    case True
    have "length (pushTileBuffers stage bt layers i bufs)
        = length (pushTileBuffers stage bt layers (Suc i) (bufs @ [createTileBuffer stage bt None i]))"
      using True by (subst pushTileBuffers.simps) simp
    also have "\<dots> = length (bufs @ [createTileBuffer stage bt None i]) + nat (layers - int (Suc i))"
      using "1.IH" [OF True] .
    finally show ?thesis using True by simp
  next
    case False
    then show ?thesis by (subst pushTileBuffers.simps) simp
  qed
qed

lemma secondPass_complete:
  "secondPass sprites i data = Inr data' \<Longrightarrow> i \<le> j \<Longrightarrow> j < length sprites \<Longrightarrow>
   completeSprite (sprites ! j)"
proof (induction sprites i data rule: secondPass.induct)
  case (1 sprites i data)
  from "1.prems"(2,3) have lt: "i < length sprites" by simp
  from secondPass_step [OF "1.prems"(1) lt] obtain d
    where d: "writeSprite (length sprites) i (sprites ! i) data = Inr d"
      and r: "secondPass sprites (Suc i) d = Inr data'" by blast
  show ?case
  proof (cases "i = j")
    case True
    with writeSprite_Inr [OF d] show ?thesis by (auto simp: completeSprite_def)
  next
    case False
    with "1.prems"(2) have "Suc i \<le> j" by simp
    from "1.IH" [OF lt d r this "1.prems"(3)] show ?thesis .
  qed
qed

lemma buildFrameBuffer_Inr_iff:
  "(\<exists>t. buildFrameBuffer sprites = Inr t) = (\<forall>s \<in> set sprites. completeSprite s)"
proof
  assume "\<exists>t. buildFrameBuffer sprites = Inr t"
  then obtain data where sp: "secondPass sprites 0 (firstPass (length sprites) 0 []) = Inr data"
    by (auto simp: buildFrameBuffer_def split: sum.splits)
  show "\<forall>s \<in> set sprites. completeSprite s"
  proof
    fix s assume "s \<in> set sprites"
    then obtain j where "j < length sprites" "sprites ! j = s" by (auto simp: in_set_conv_nth)
    with secondPass_complete [OF sp, of j] show "completeSprite s" by simp
  qed
next
  assume "\<forall>s \<in> set sprites. completeSprite s"
  then have "\<And>j. j < length sprites \<Longrightarrow> completeSprite (sprites ! j)" by simp
  then obtain data where "secondPass sprites 0 (firstPass (length sprites) 0 []) = Inr data"
    using secondPass_total [of 0 sprites "firstPass (length sprites) 0 []"] by blast
  then show "\<exists>t. buildFrameBuffer sprites = Inr t" by (simp add: buildFrameBuffer_def)
qed

text \<open>C7, as the code has it: the constructor checks neither the stage size nor the layer
  count.  Whenever every atlas entry carries its \<^verbatim>\<open>frame\<close>, \<^verbatim>\<open>spriteSourceSize\<close> and
  \<^verbatim>\<open>sourceSize\<close> objects it returns a material, for every stage size and every layer count,
  with as many tile grids as the layer count says (none when it is below 1); when some entry
  lacks one of these objects, building the frame table throws a TypeError and no material
  is returned.\<close>

theorem SpriteMapMaterial_new_result:
  "((\<forall>s \<in> set (p_atlas params). completeSprite s) \<longrightarrow>
      (\<exists>m. SpriteMapMaterial_new params = Inr m \<and> m_stageSize m = p_stageSize params \<and>
           m_layerCount m = (case p_layerCount params of None \<Rightarrow> 1 | Some n \<Rightarrow> n) \<and>
           length (m_tileBuffers m) = nat (m_layerCount m))) \<and>
   (\<not> (\<forall>s \<in> set (p_atlas params). completeSprite s) \<longrightarrow>
      SpriteMapMaterial_new params = Inl TypeError)"
proof (cases "\<forall>s \<in> set (p_atlas params). completeSprite s")
  case True
  with buildFrameBuffer_Inr_iff [of "p_atlas params"] obtain fb
    where "buildFrameBuffer (p_atlas params) = Inr fb" by blast
  then show ?thesis using True
    by (simp add: SpriteMapMaterial_new_def Let_def pushTileBuffers_length)
next
  case False
  with buildFrameBuffer_Inr_iff [of "p_atlas params"]
  have "\<not> (\<exists>t. buildFrameBuffer (p_atlas params) = Inr t)" by simp
  then obtain e where "buildFrameBuffer (p_atlas params) = Inl e"
    by (cases "buildFrameBuffer (p_atlas params)") auto
  moreover have "e = TypeError" by (cases e) simp
  ultimately show ?thesis using False by (simp add: SpriteMapMaterial_new_def Let_def)
qed

theorem SpriteMapMaterial_new_result_witness:
  "(\<exists>m. SpriteMapMaterial_new paramsZero = Inr m \<and> m_stageSize m = (0, 0) \<and>
        m_layerCount m = 0 \<and> length (m_tileBuffers m) = 0) \<and>
   SpriteMapMaterial_new paramsBad = Inl TypeError"
  using SpriteMapMaterial_new_result [of paramsZero] SpriteMapMaterial_new_result [of paramsBad]
  by (auto simp: paramsZero_def paramsBad_def completeSprite_def sprA_def sprBad_def)

text \<open>C7 as stated fails: construction with a stage of zero cells and a layer count of
  zero does not end in an error.\<close>

theorem SpriteMapMaterial_new_counterexample:
  "\<not> isl (SpriteMapMaterial_new paramsZero)"
  by code_simp

section \<open>Properties of the mutation operations\<close>









lemma floorVec_idem: "floorVec (floorVec v) = floorVec v"
  by (simp add: floorVec_def)

lemma tileIndex_floorVec: "tileIndex tx (floorVec v) = tileIndex tx v"
  by (simp add: tileIndex_def floorVec_def)

lemma changeLoop_step:
  "i < length p \<Longrightarrow>
   changeLoop tx tile p i (h, buffer) =
     changeLoop tx tile p (Suc i)
       (h(p ! i := floorVec (h (p ! i))), typedSet buffer (tileIndex tx (h (p ! i))) tile)"
  by (subst changeLoop.simps) (simp add: Let_def tileIndex_floorVec)

lemma changeLoop_done: "\<not> i < length p \<Longrightarrow> changeLoop tx tile p i (h, buffer) = (h, buffer)"
  by (subst changeLoop.simps) simp

lemma changeLoop_store:
  "fst (changeLoop tx tile p i (h, buffer)) r =
     (if r \<in> set (drop i p) then floorVec (h r) else h r)"
proof (induction tx tile p i "(h, buffer)" arbitrary: h buffer rule: changeLoop.induct)
  case (1 tx tile p i h buffer)
  show ?case
  proof (cases "i < length p")
    case True
    let ?h = "h(p ! i := floorVec (h (p ! i)))"
    have d: "set (drop i p) = insert (p ! i) (set (drop (Suc i) p))"
      using True by (simp add: Cons_nth_drop_Suc [symmetric])
    have "fst (changeLoop tx tile p i (h, buffer)) r
        = (if r \<in> set (drop (Suc i) p) then floorVec (?h r) else ?h r)"
      unfolding changeLoop_step [OF True]
      using "1.hyps" [OF True refl refl refl refl] by (simp add: tileIndex_floorVec)
    then show ?thesis by (simp add: d floorVec_idem)
  next
    case False
    then show ?thesis by (simp add: changeLoop_done)
  qed
qed



lemma matA_tileBuffers:
  "m_tileBuffers matA = [\<lparr>pixels = replicate 16 0, bufferView = Some (replicate 16 0),
     width = 2, height = 2\<rparr>]"
  by code_simp


lemma changeTiles_Some:
  assumes "layer < length (m_tileBuffers m)" "bufferView (m_tileBuffers m ! layer) = Some buf"
  shows "changeTiles layer pos tile (m, h) =
     Inr (m\<lparr>m_tileBuffers := (m_tileBuffers m)[layer :=
             CreateRGBATexture (snd (changeLoop (fst (m_stageSize m)) tile (positionList pos) 0 (h, buf)))
               (fst (m_stageSize m)) (snd (m_stageSize m))]\<rparr>,
          fst (changeLoop (fst (m_stageSize m)) tile (positionList pos) 0 (h, buf)))"
  using assms
  by (simp add: changeTiles_def Let_def createTileBuffer_def Float32Array_copy_def split: prod.splits)




text \<open>C10, as the code has it: a call of \<^verbatim>\<open>changeTiles\<close> on an existing layer whose texture
  has a buffer view overwrites the x and y of every position object it is given with their
  floors, in the caller's store, and touches no other object.\<close>

theorem changeTiles_floors_positions:
  assumes "layer < length (m_tileBuffers m)" "bufferView (m_tileBuffers m ! layer) = Some buf"
  shows "\<exists>m' h'. changeTiles layer pos tile (m, h) = Inr (m', h') \<and>
     (\<forall>r. h' r = (if r \<in> set (positionList pos) then floorVec (h r) else h r))"
  unfolding changeTiles_Some [OF assms]
  using changeLoop_store [of "fst (m_stageSize m)" tile "positionList pos" 0 h buf] by simp

theorem changeTiles_floors_positions_witness:
  "\<exists>m' h'. changeTiles 0 (One 3) 5 (matA, storeFrac) = Inr (m', h') \<and>
     h' 3 = Vector2 2 1 \<and> h' 4 = Vector2 2.5 1.5"
proof -
  have a: "0 < length (m_tileBuffers matA)"
    "bufferView (m_tileBuffers matA ! 0) = Some (replicate 16 0)"
    by (simp_all add: matA_tileBuffers)
  from changeTiles_floors_positions [OF a, of "One 3" 5 storeFrac] obtain m' h'
    where r: "changeTiles 0 (One 3) 5 (matA, storeFrac) = Inr (m', h')"
      and n: "\<forall>r. h' r = (if r \<in> set (positionList (One 3)) then floorVec (storeFrac r) else storeFrac r)"
    by auto
  from n have "h' 3 = Vector2 2 1" "h' 4 = Vector2 2.5 1.5"
    by (simp_all add: positionList_def storeFrac_def floorVec_def)
  with r show ?thesis by blast
qed

text \<open>C10 as stated fails for a call that finds no buffer view: it returns before the loop
  and the position (2.5, 1.5) keeps its fractional coordinates.\<close>

theorem changeTiles_floors_positions_counterexample:
  "\<not> isl (changeTiles 0 (One 0) 5 (matNull, storeFrac)) \<and>
   snd (projr (changeTiles 0 (One 0) 5 (matNull, storeFrac))) 0 \<noteq> floorVec (storeFrac 0)"
  by code_simp

section \<open>Properties of the compositing sampler\<close>

lemma texIndex_col: "a < n \<Longrightarrow> texIndex n ((real a + 1 / 2) / real n) = a"
proof -
  assume a: "a < n"
  then have "(real a + 1 / 2) / real n * real n = real a + 1 / 2" by simp
  moreover have "\<lfloor>real a + 1 / 2\<rfloor> = int a" by (rule floor_unique) simp_all
  ultimately have "\<lfloor>(real a + 1 / 2) / real n * real n\<rfloor> = int a" by simp
  with a show ?thesis by (simp add: texIndex_def)
qed

lemma texIndex_row: "f < n \<Longrightarrow> texIndex n (real f / real n) = f"
proof -
  assume a: "f < n"
  then have "real f / real n * real n = real f" by simp
  then have "\<lfloor>real f / real n * real n\<rfloor> = int f" by simp
  with a show ?thesis by (simp add: texIndex_def)
qed

lemma texIndex_zero: "texIndex n 0 = 0"
  by (simp add: texIndex_def)

lemma animationBuffer_slot:
  assumes "u_spriteCount u = real n" "a < n" "width (u_animationBuffer u) = n"
    "height (u_animationBuffer u) = u_MAX_ANIMATION_FRAMES u" "f < u_MAX_ANIMATION_FRAMES u"
  shows "texture2D (u_animationBuffer u) ((real a + 0.5) / u_spriteCount u, aFrameSteps u * real f)
     = texel (u_animationBuffer u) a f"
  using assms by (simp add: texture2D_def aFrameSteps_def texIndex_col texIndex_row del: of_nat_add)

lemma animationBuffer_slot0:
  assumes "u_spriteCount u = real n" "a < n" "width (u_animationBuffer u) = n"
  shows "texture2D (u_animationBuffer u) ((real a + 0.5) / u_spriteCount u, 0)
     = texel (u_animationBuffer u) a 0"
  using assms by (simp add: texture2D_def texIndex_col texIndex_zero)

lemma animScan_step:
  "f < u_MAX_ANIMATION_FRAMES u \<Longrightarrow> \<not> vy ad > mt \<Longrightarrow>
   animScan u mt frameID f ad = animScan u mt frameID (Suc f)
     (texture2D (u_animationBuffer u) ((frameID + 0.5) / u_spriteCount u, aFrameSteps u * real f))"
  by (subst animScan.simps) simp

lemma animScan_stop:
  "f < u_MAX_ANIMATION_FRAMES u \<Longrightarrow> vy ad > mt \<Longrightarrow> animScan u mt frameID f ad = vx ad"
  by (subst animScan.simps) simp

lemma animScan_end: "\<not> f < u_MAX_ANIMATION_FRAMES u \<Longrightarrow> animScan u mt frameID f ad = frameID"
  by (subst animScan.simps) simp

text \<open>When no slot of the row holds a fraction above \<open>mt\<close>, the scan runs to its end and
  leaves the frame as it was.\<close>

lemma animScan_none:
  assumes "u_spriteCount u = real n" "a < n" "width (u_animationBuffer u) = n"
    "height (u_animationBuffer u) = u_MAX_ANIMATION_FRAMES u"
    "\<forall>f < u_MAX_ANIMATION_FRAMES u. vy (texel (u_animationBuffer u) a f) \<le> mt"
  shows "vy ad \<le> mt \<Longrightarrow> animScan u mt (real a) f ad = real a"
proof (induction "u_MAX_ANIMATION_FRAMES u - f" arbitrary: f ad)
  case 0
  then show ?case by (simp add: animScan_end)
next
  case (Suc k)
  then have lt: "f < u_MAX_ANIMATION_FRAMES u" and k: "k = u_MAX_ANIMATION_FRAMES u - Suc f"
    by simp_all
  let ?ad = "texture2D (u_animationBuffer u) ((real a + 0.5) / u_spriteCount u, aFrameSteps u * real f)"
  have "?ad = texel (u_animationBuffer u) a f"
    by (rule animationBuffer_slot [OF assms(1-4) lt])
  with assms(5) lt have "vy ?ad \<le> mt" by simp
  from Suc.hyps(1) [OF k this] Suc.prems lt show ?case
    by (simp add: animScan_step)
qed

lemma glsl_mod_one: "glsl_mod (t * 1) 1.0 = frac t"
  by (simp add: glsl_mod_def frac_def)

text \<open>C1: let sprite \<open>a\<close> have the single transition cell \<open>(B, 0.5, 1.0)\<close> in slot 0 of
  its row of the animation table and hold fraction 0 in every other slot.  Then the
  animation resolution of the sampler yields \<open>B\<close> at every time whose fractional part is
  below 0.5 and the sprite's own frame \<open>a\<close> at every time whose fractional part is 0.5 or
  more; at equality the slot does not count as exceeding, and the scan goes on.\<close>

theorem resolveFrame_single_transition:
  assumes "u_spriteCount u = real n" "a < n" "width (u_animationBuffer u) = n"
    "height (u_animationBuffer u) = u_MAX_ANIMATION_FRAMES u"
    "0 < u_MAX_ANIMATION_FRAMES u"
    "texel (u_animationBuffer u) a 0 = Vec4 B 0.5 1.0 q"
    "\<forall>f. 0 < f \<and> f < u_MAX_ANIMATION_FRAMES u \<longrightarrow> vy (texel (u_animationBuffer u) a f) = 0"
  shows "(frac (u_time u) < 0.5 \<longrightarrow> resolveFrame u (real a) = B) \<and>
         (0.5 \<le> frac (u_time u) \<longrightarrow> resolveFrame u (real a) = real a)"
proof -
  let ?ad = "texel (u_animationBuffer u) a 0"
  have r: "resolveFrame u (real a) = animScan u (frac (u_time u)) (real a) 0 ?ad"
    using animationBuffer_slot0 [OF assms(1-3)] assms(6) glsl_mod_one [of "u_time u"]
    by (simp add: resolveFrame_def Let_def)
  have lo: "resolveFrame u (real a) = B" if "frac (u_time u) < 0.5"
    unfolding r using that assms(5,6) by (simp add: animScan_stop)
  have hi: "resolveFrame u (real a) = real a" if h: "0.5 \<le> frac (u_time u)"
  proof -
    have "\<forall>f < u_MAX_ANIMATION_FRAMES u. vy (texel (u_animationBuffer u) a f) \<le> frac (u_time u)"
    proof (intro allI impI)
      fix f assume f: "f < u_MAX_ANIMATION_FRAMES u"
      show "vy (texel (u_animationBuffer u) a f) \<le> frac (u_time u)"
      proof (cases "f = 0")
        case True
        with assms(6) h show ?thesis by simp
      next
        case False
        with assms(7) f have "vy (texel (u_animationBuffer u) a f) = 0" by simp
        with h show ?thesis by simp
      qed
    qed
    from animScan_none [OF assms(1-4) this, of ?ad 0] assms(6) h show ?thesis
      unfolding r by simp
  qed
  from lo hi show ?thesis by blast
qed

lemma uniformsAnim_facts:
  "u_spriteCount (uniformsAnim t) = real 2"
  "width (u_animationBuffer (uniformsAnim t)) = 2"
  "height (u_animationBuffer (uniformsAnim t)) = u_MAX_ANIMATION_FRAMES (uniformsAnim t)"
  "u_MAX_ANIMATION_FRAMES (uniformsAnim t) = 2"
  "texel (u_animationBuffer (uniformsAnim t)) 0 0 = Vec4 1 0.5 1.0 0"
  "vy (texel (u_animationBuffer (uniformsAnim t)) 0 (Suc 0)) = 0"
  "u_time (uniformsAnim t) = t"
  by code_simp+

theorem resolveFrame_single_transition_witness:
  "resolveFrame (uniformsAnim 0.25) (real 0) = 1 \<and> resolveFrame (uniformsAnim 7.75) (real 0) = real 0
   \<and> resolveFrame (uniformsAnim 3.5) (real 0) = real 0"
proof -
  have s: "\<forall>f. 0 < f \<and> f < u_MAX_ANIMATION_FRAMES (uniformsAnim t) \<longrightarrow>
      vy (texel (u_animationBuffer (uniformsAnim t)) 0 f) = 0" for t
  proof (intro allI impI)
    fix f assume "0 < f \<and> f < u_MAX_ANIMATION_FRAMES (uniformsAnim t)"
    then have "f = 1" by (simp add: uniformsAnim_facts(4))
    then show "vy (texel (u_animationBuffer (uniformsAnim t)) 0 f) = 0"
      by (simp add: uniformsAnim_facts(6))
  qed
  have p: "0 < u_MAX_ANIMATION_FRAMES (uniformsAnim t)" for t
    by (simp add: uniformsAnim_facts(4))
  note th = resolveFrame_single_transition [OF uniformsAnim_facts(1) _ uniformsAnim_facts(2,3) p
      uniformsAnim_facts(5) s]
  have f1: "frac (1 / 4::real) = 1 / 4" by (simp add: frac_def)
  have f2: "frac (31 / 4::real) = 3 / 4" by (simp add: frac_def)
  have f3: "frac (7 / 2::real) = 1 / 2" by (simp add: frac_def)
  from th [of "0.25"] th [of "7.75"] th [of "3.5"] show ?thesis
    by (simp add: uniformsAnim_facts(7) f1 f2 f3)
qed










text \<open>C4 on the code: the rotation test assigns to \<^verbatim>\<open>tileUV\<close>, which is declared before the
  layer loop, so the swap made for a rotated frame stays in force for the layers after it.
  At the pixel (0.25, 0.75) of the one-cell stage, layer 1 shows a frame that is not
  rotated: sampled from the coordinate the loop starts with it keeps (0.25, 0.75).  In
  the loop it comes after the rotated frame of layer 0 and is sampled from the swapped
  coordinate (0.75, 0.25).\<close>

theorem layerSetup_rotation_leak:
  "tileUV (fragmentInit uniformsR (0.25, 0.75)) = (0.25, 0.75) \<and>
   layerSetup uniformsR (0, 0) 1 (0.25, 0.75) = ((0.25, 0.75), (0.125, 0.75)) \<and>
   tileUV (layerBody uniformsR (0, 0) 0 (fragmentInit uniformsR (0.25, 0.75))) = (0.75, 0.25) \<and>
   layerSetup uniformsR (0, 0) 1
       (tileUV (layerBody uniformsR (0, 0) 0 (fragmentInit uniformsR (0.25, 0.75))))
     = ((0.75, 0.25), (0.375, 0.25))"
  by code_simp

end
